theory Spec2Isabelle
  imports Complex_Main
begin

section \<open>The rolling z-score anomaly detector\<close>

text \<open>
  The embedding follows \<^verbatim>\<open>src/anomaly_detector.py\<close>, class
  \<^verbatim>\<open>ZScoreAnomalyDetector\<close>. Python floats are idealised as the reals: sums,
  quotients and square roots are exact, and the values NaN and Infinity do not exist.
  Statements about verdicts are therefore made only where exact arithmetic and the
  float computation agree: where no arithmetic is reached, where the window has one
  item (its mean and deviation are computed without rounding), where the threshold is
  the only thing that varies, and where the z-score is far from the threshold.
  The Python integer \<^verbatim>\<open>window_size\<close> is an \<^typ>\<open>int\<close>.
\<close>

subsection \<open>Data model\<close>

text \<open>
  The three attributes set by \<^verbatim>\<open>__init__\<close>. The attribute
  \<^verbatim>\<open>data_window\<close> is a \<^verbatim>\<open>deque(maxlen=window_size)\<close>: its items are
  listed oldest first, and its bound is the detector's \<^verbatim>\<open>window_size\<close>,
  which no method reassigns.
\<close>

record detector =
  window_size :: int
  threshold :: real
  data_window :: "real list"

text \<open>
  The exceptions the class can raise, both from \<^verbatim>\<open>deque(maxlen=n)\<close>:
  \<^verbatim>\<open>OverflowError\<close> when \<^verbatim>\<open>n\<close> does not fit the interpreter's index type
  (C \<^verbatim>\<open>ssize_t\<close>), and \<^verbatim>\<open>ValueError\<close> when it fits and is negative. The class
  defines no exception of its own and validates nothing.
\<close>

datatype error = ValueError | OverflowError

text \<open>
  The largest value of the interpreter's index type, on a 64-bit build of CPython.
\<close>

definition PY_SSIZE_T_MAX :: int where
  "PY_SSIZE_T_MAX = 2 ^ 63 - 1"

subsection \<open>Library operations used by the class\<close>

text \<open>
  \<^verbatim>\<open>deque.append\<close> on a bounded deque: the item is added on the right and, when
  the bound is exceeded, one item is removed on the left. With bound 0 the deque stays
  empty.
\<close>

definition deque_append :: "nat \<Rightarrow> real list \<Rightarrow> real \<Rightarrow> real list" where
  "deque_append maxlen items x =
     (let ys = items @ [x] in if maxlen < length ys then tl ys else ys)"

text \<open>
  \<^verbatim>\<open>numpy.mean\<close>: the sum of the items divided by their number.
  \<^verbatim>\<open>numpy.std\<close> with its default \<^verbatim>\<open>ddof=0\<close>: the square root of the mean of
  the squared absolute deviations from the mean.
\<close>

definition np_mean :: "real list \<Rightarrow> real" where
  "np_mean xs = sum_list xs / real (length xs)"

definition np_std :: "real list \<Rightarrow> real" where
  "np_std xs = sqrt (np_mean (map (\<lambda>v. \<bar>v - np_mean xs\<bar> ^ 2) xs))"

subsection \<open>The class\<close>

text \<open>
  \<^verbatim>\<open>__init__(self, window_size, threshold)\<close>: stores both arguments and
  builds the empty deque. The deque constructor is the only step that can fail: it
  first converts its bound to the index type, then rejects a negative bound.
\<close>

definition init :: "int \<Rightarrow> real \<Rightarrow> error + detector" where
  "init ws th =
     (if ws < - PY_SSIZE_T_MAX - 1 \<or> PY_SSIZE_T_MAX < ws then Inl OverflowError
      else if ws < 0 then Inl ValueError
      else Inr \<lparr>window_size = ws, threshold = th, data_window = []\<rparr>)"

text \<open>
  \<^verbatim>\<open>detect(self, new_value)\<close> returns the verdict together with the updated
  detector. The branches are those of the source, in its order. One branch is added for
  an empty window, which arises only for \<^verbatim>\<open>window_size = 0\<close>: there
  \<^verbatim>\<open>numpy.mean\<close> and \<^verbatim>\<open>numpy.std\<close> give NaN (with a warning, no exception),
  \<^verbatim>\<open>nan == 0\<close> is false and \<^verbatim>\<open>abs(nan) > threshold\<close> is false, so the
  method returns a false verdict.
\<close>

definition detect :: "detector \<Rightarrow> real \<Rightarrow> bool \<times> detector" where
  "detect d new_value =
     (let w = deque_append (nat (window_size d)) (data_window d) new_value;
          d' = d\<lparr>data_window := w\<rparr>
      in if int (length w) < window_size d then (False, d')
         else if w = [] then (False, d')
         else
           let mean = np_mean w;
               std_dev = np_std w
           in if std_dev = 0 then (False, d')
              else
                let z_score = (new_value - mean) / std_dev
                in (\<bar>z_score\<bar> > threshold d, d'))"

text \<open>
  The caller's loop, as in the tests and in the plotting loop: one detector is fed the
  samples in order; the verdicts are collected and the final detector is returned.
\<close>

fun run :: "detector \<Rightarrow> real list \<Rightarrow> bool list \<times> detector" where
  "run d [] = ([], d)"
| "run d (x # xs) =
     (let (b, d') = detect d x;
          (bs, d'') = run d' xs
      in (b # bs, d''))"

section \<open>Basic facts\<close>

lemma length_deque_append:
  "length items \<le> m \<Longrightarrow> length (deque_append m items x) = min (Suc (length items)) m"
  by (auto simp: deque_append_def Let_def)

lemma deque_append_drop:
  "length items \<le> m \<Longrightarrow>
   deque_append m items x = drop (Suc (length items) - m) (items @ [x])"
  by (cases items) (auto simp: deque_append_def Let_def Suc_diff_le)

lemma detect_window:
  "data_window (snd (detect d x)) = deque_append (nat (window_size d)) (data_window d) x"
  by (simp add: detect_def Let_def)

lemma detect_window_size: "window_size (snd (detect d x)) = window_size d"
  by (simp add: detect_def Let_def)

lemma detect_threshold: "threshold (snd (detect d x)) = threshold d"
  by (simp add: detect_def Let_def)

lemma run_Cons:
  "run d (x # xs) = (fst (detect d x) # fst (run (snd (detect d x)) xs),
                     snd (run (snd (detect d x)) xs))"
  by (simp add: split_beta Let_def)

lemma run_window_size: "window_size (snd (run d xs)) = window_size d"
  by (induction xs arbitrary: d) (simp_all add: run_Cons detect_window_size del: run.simps(2))

lemma run_threshold: "threshold (snd (run d xs)) = threshold d"
  by (induction xs arbitrary: d) (simp_all add: run_Cons detect_threshold del: run.simps(2))

lemma length_run: "length (fst (run d xs)) = length xs"
  by (induction xs arbitrary: d) (simp_all add: run_Cons del: run.simps(2))

lemma run_append:
  "run d (xs @ ys) = (fst (run d xs) @ fst (run (snd (run d xs)) ys),
                      snd (run (snd (run d xs)) ys))"
  by (induction xs arbitrary: d) (simp_all add: run_Cons del: run.simps(2))

lemma run_window:
  "length (data_window d) \<le> nat (window_size d) \<Longrightarrow>
   data_window (snd (run d xs)) =
     drop (length (data_window d @ xs) - nat (window_size d)) (data_window d @ xs)"
proof (induction xs arbitrary: d)
  case Nil
  then show ?case by simp
next
  case (Cons x xs)
  let ?d' = "snd (detect d x)"
  let ?m = "nat (window_size d)"
  have w': "data_window ?d' = drop (Suc (length (data_window d)) - ?m) (data_window d @ [x])"
    using Cons.prems by (simp add: detect_window deque_append_drop)
  have len': "length (data_window ?d') \<le> nat (window_size ?d')"
    using Cons.prems by (simp add: detect_window detect_window_size length_deque_append)
  have "data_window (snd (run d (x # xs))) = data_window (snd (run ?d' xs))"
    by (simp add: run_Cons del: run.simps(2))
  also have "\<dots> = drop (length (data_window ?d' @ xs) - ?m) (data_window ?d' @ xs)"
    using Cons.IH [OF len'] by (simp add: detect_window_size)
  also have "\<dots> = drop (length (data_window d @ x # xs) - ?m) (data_window d @ x # xs)"
  proof -
    let ?a = "Suc (length (data_window d)) - ?m"
    let ?zs = "data_window d @ x # xs"
    have "drop ?a ((data_window d @ [x]) @ xs) = drop ?a (data_window d @ [x]) @ xs"
      by (subst drop_append) simp
    then have "data_window ?d' @ xs = drop ?a ?zs"
      unfolding w' by simp
    moreover have "length (drop ?a ?zs) - ?m + ?a = length ?zs - ?m"
    proof -
      have "length ?zs = Suc (length (data_window d) + length xs)"
        by simp
      then show ?thesis
        unfolding length_drop by arith
    qed
    ultimately show ?thesis
      by (simp only: drop_drop)
  qed
  finally show ?case .
qed

lemma warm_up_run:
  "int (length (data_window d)) + int (length xs) < window_size d \<Longrightarrow>
   fst (run d xs) = replicate (length xs) False"
proof (induction xs arbitrary: d)
  case Nil
  then show ?case by simp
next
  case (Cons x xs)
  have l: "length (deque_append (nat (window_size d)) (data_window d) x) = Suc (length (data_window d))"
    using Cons.prems by (subst length_deque_append) auto
  have "fst (detect d x) = False"
    using Cons.prems l by (simp add: detect_def Let_def)
  moreover have "fst (run (snd (detect d x)) xs) = replicate (length xs) False"
    using Cons.prems l by (intro Cons.IH) (simp add: detect_window detect_window_size)
  ultimately show ?case by (simp add: run_Cons del: run.simps(2))
qed

lemma run_take: "fst (run d (take n xs)) = take n (fst (run d xs))"
proof -
  have "run d xs = run d (take n xs @ drop n xs)" by simp
  also have "fst \<dots> = fst (run d (take n xs)) @ fst (run (snd (run d (take n xs))) (drop n xs))"
    by (simp only: run_append fst_conv)
  finally show ?thesis
    by (cases "n \<le> length xs") (simp_all add: length_run)
qed

section \<open>Auxiliary lemmas\<close>

lemma init_fresh:
  "init ws th = Inr d0 \<Longrightarrow>
   0 \<le> ws \<and> window_size d0 = ws \<and> threshold d0 = th \<and> data_window d0 = []"
  by (auto simp: init_def split: if_splits)

lemma init_small:
  "0 \<le> ws \<Longrightarrow> ws \<le> 1000 \<Longrightarrow>
   init ws th = Inr \<lparr>window_size = ws, threshold = th, data_window = []\<rparr>"
  by (simp add: init_def PY_SSIZE_T_MAX_def)

lemma detect_zero_std:
  "np_std (deque_append (nat (window_size d)) (data_window d) x) = 0 \<Longrightarrow> \<not> fst (detect d x)"
  by (simp add: detect_def Let_def)

lemma detect_warm:
  "int (length (data_window d)) + 1 < window_size d \<Longrightarrow>
   detect d x = (False, d\<lparr>data_window := data_window d @ [x]\<rparr>)"
  by (simp add: detect_def deque_append_def Let_def)

lemma np_std_pair: "np_std [0, 2] = 1"
  by (simp add: np_std_def np_mean_def)

lemma np_std_single: "np_std [x] = 0"
  by (simp add: np_std_def np_mean_def)

lemma np_std_ones: "np_std [1, 1, 1, 1, 1] = 0"
  by (simp add: np_std_def np_mean_def)

lemma np_mean_spike: "np_mean [1, 1, 1, 1, 10] = 14 / 5"
  by (simp add: np_mean_def)

lemma np_std_spike: "np_std [1, 1, 1, 1, 10] = 18 / 5"
proof -
  have "np_mean (map (\<lambda>v. \<bar>v - np_mean [1, 1, 1, 1, 10]\<bar> ^ 2) [1, 1, 1, 1, 10]) = (18 / 5) ^ 2"
    unfolding np_mean_spike by (simp add: np_mean_def power2_eq_square)
  then show ?thesis
    unfolding np_std_def by simp
qed

lemma deque_append_one: "length items \<le> 1 \<Longrightarrow> deque_append 1 items x = [x]"
  by (cases items) (auto simp: deque_append_def)

lemma unit_window_run:
  "window_size d = 1 \<Longrightarrow> length (data_window d) \<le> 1 \<Longrightarrow>
   fst (run d xs) = replicate (length xs) False"
proof (induction xs arbitrary: d)
  case Nil
  then show ?case by simp
next
  case (Cons x xs)
  have w: "deque_append (nat (window_size d)) (data_window d) x = [x]"
    using Cons.prems deque_append_one [of "data_window d" x] by simp
  have "\<not> fst (detect d x)"
    by (rule detect_zero_std) (simp add: w np_std_single)
  moreover have "fst (run (snd (detect d x)) xs) = replicate (length xs) False"
    using Cons.prems w by (intro Cons.IH) (simp_all add: detect_window detect_window_size)
  ultimately show ?case
    by (simp add: run_Cons del: run.simps(2))
qed

section \<open>The claims\<close>

text \<open>
  Claim C1 (spike detection). The specification and the repository's test
  \<^verbatim>\<open>test_detects_anomaly_in_spike\<close> say that, with \<^verbatim>\<open>window_size=5\<close> and
  \<^verbatim>\<open>threshold=3.0\<close>, five calls with 1.0 followed by a call with 10.0 make the sixth
  call return true. The code returns false on all six calls: on the sixth the window is
  \<open>[1, 1, 1, 1, 10]\<close>, its mean is 14/5, its population standard deviation is 18/5,
  and the z-score of 10 is exactly 2, which does not exceed 3.
\<close>

theorem spike_sixth_verdict_false:
  "init 5 3 = Inr \<lparr>window_size = 5, threshold = 3, data_window = []\<rparr> \<and>
   fst (run \<lparr>window_size = 5, threshold = 3, data_window = []\<rparr> [1, 1, 1, 1, 1, 10]) =
     [False, False, False, False, False, False]"
proof -
  let ?full = "\<lparr>window_size = 5, threshold = 3, data_window = [1, 1, 1, 1, 1]\<rparr>"
  have five: "detect \<lparr>window_size = 5, threshold = 3, data_window = [1, 1, 1, 1]\<rparr> 1 = (False, ?full)"
    by (simp add: detect_def deque_append_def Let_def np_std_ones)
  have six: "fst (detect ?full 10) = False"
    by (simp add: detect_def deque_append_def Let_def np_std_spike np_mean_spike)
  show ?thesis
    by (simp add: init_small run_Cons detect_warm five six del: run.simps(2))
qed

text \<open>
  Claim C2 (construction validation), as stated: construction fails with
  \<^verbatim>\<open>InvalidConfig\<close> whenever \<^verbatim>\<open>window_size < 1\<close> or \<^verbatim>\<open>threshold <= 0\<close>.
  The constructor checks nothing: \<^verbatim>\<open>new(0, 3.0)\<close> and \<^verbatim>\<open>new(5, 0.0)\<close> both
  succeed.
\<close>

theorem construction_accepts_invalid_config:
  "init 0 3 = Inr \<lparr>window_size = 0, threshold = 3, data_window = []\<rparr> \<and>
   init 5 0 = Inr \<lparr>window_size = 5, threshold = 0, data_window = []\<rparr>"
  by (simp add: init_def PY_SSIZE_T_MAX_def)

text \<open>
  Claim C2, amended: construction never fails with \<^verbatim>\<open>InvalidConfig\<close> and
  validates neither argument. It fails exactly when \<^verbatim>\<open>window_size\<close> is negative
  (the deque's \<^verbatim>\<open>ValueError\<close>) or outside the index range
  (\<^verbatim>\<open>OverflowError\<close>), whatever the threshold, and succeeds for every
  \<^verbatim>\<open>window_size\<close> from 0 up to the largest index and every threshold. In
  particular \<^verbatim>\<open>new(0, 3.0)\<close>, \<^verbatim>\<open>new(5, 0.0)\<close> and \<^verbatim>\<open>new(5, 3.0)\<close>
  all succeed.
\<close>

theorem construction_outcomes:
  "(init ws th = Inr \<lparr>window_size = ws, threshold = th, data_window = []\<rparr>) =
     (0 \<le> ws \<and> ws \<le> PY_SSIZE_T_MAX) \<and>
   (init ws th = Inl ValueError) = (- PY_SSIZE_T_MAX - 1 \<le> ws \<and> ws < 0) \<and>
   (init ws th = Inl OverflowError) = (ws < - PY_SSIZE_T_MAX - 1 \<or> PY_SSIZE_T_MAX < ws) \<and>
   init 0 3 = Inr \<lparr>window_size = 0, threshold = 3, data_window = []\<rparr> \<and>
   init 5 0 = Inr \<lparr>window_size = 5, threshold = 0, data_window = []\<rparr> \<and>
   init 5 3 = Inr \<lparr>window_size = 5, threshold = 3, data_window = []\<rparr>"
  by (auto simp: init_def PY_SSIZE_T_MAX_def)

text \<open>
  Claim C4 (warm-up). On a freshly constructed detector with \<^verbatim>\<open>window_size = W\<close>,
  each of the first \<open>W - 1\<close> calls returns false, whatever the samples and however
  many calls follow.
\<close>

theorem warm_up_verdicts_false:
  assumes "init ws th = Inr d0"
  shows "take (nat (ws - 1)) (fst (run d0 xs)) =
           replicate (min (length xs) (nat (ws - 1))) False"
proof (cases "1 \<le> ws")
  case True
  let ?n = "nat (ws - 1)"
  from assms have d0: "window_size d0 = ws" "data_window d0 = []"
    by (simp_all add: init_fresh)
  have "int (length (data_window d0)) + int (length (take ?n xs)) < window_size d0"
    using True by (simp add: d0)
  then have "fst (run d0 (take ?n xs)) = replicate (length (take ?n xs)) False"
    by (rule warm_up_run)
  then show ?thesis
    by (simp add: run_take)
next
  case False
  then show ?thesis by simp
qed

theorem warm_up_verdicts_false_witness:
  "init 3 2 = Inr \<lparr>window_size = 3, threshold = 2, data_window = []\<rparr> \<and>
   take 2 (fst (run \<lparr>window_size = 3, threshold = 2, data_window = []\<rparr> [5, 100, 7, 1])) =
     [False, False]"
proof -
  have i: "init 3 2 = Inr \<lparr>window_size = 3, threshold = 2, data_window = []\<rparr>"
    by (simp add: init_small)
  show ?thesis
    using i warm_up_verdicts_false [OF i, of "[5, 100, 7, 1]"]
    by (simp add: numeral_2_eq_2)
qed

text \<open>
  Claim C5 (rolling window). After the samples \<open>xs\<close> have been fed to a fresh detector,
  the window holds the last \<open>min (length xs) W\<close> of them, oldest first; once at least
  \<open>W\<close> samples were fed it holds exactly \<open>W\<close>. A further call appends its sample
  whatever it returns, and drops the oldest item exactly when the window already held
  \<open>W\<close> items.
\<close>

theorem window_holds_last_samples:
  assumes "init ws th = Inr d0"
  shows "data_window (snd (run d0 xs)) = drop (length xs - nat ws) xs \<and>
         length (data_window (snd (run d0 xs))) = min (length xs) (nat ws) \<and>
         (nat ws \<le> length xs \<longrightarrow> length (data_window (snd (run d0 xs))) = nat ws) \<and>
         data_window (snd (detect (snd (run d0 xs)) x)) =
           (let old = data_window (snd (run d0 xs))
            in if length old = nat ws then tl (old @ [x]) else old @ [x])"
proof -
  from assms have d0: "window_size d0 = ws" "data_window d0 = []"
    by (simp_all add: init_fresh)
  have w: "data_window (snd (run d0 xs)) = drop (length xs - nat ws) xs"
    using run_window [of d0 xs] by (simp add: d0)
  have l: "length (data_window (snd (run d0 xs))) = min (length xs) (nat ws)"
    unfolding w by auto
  have "data_window (snd (detect (snd (run d0 xs)) x)) =
          deque_append (nat ws) (data_window (snd (run d0 xs))) x"
    by (simp add: detect_window run_window_size d0)
  also have "\<dots> = (let old = data_window (snd (run d0 xs))
            in if length old = nat ws then tl (old @ [x]) else old @ [x])"
    using l by (auto simp: deque_append_def Let_def)
  finally show ?thesis
    using w l by simp
qed

theorem window_holds_last_samples_witness:
  "init 2 3 = Inr \<lparr>window_size = 2, threshold = 3, data_window = []\<rparr> \<and>
   data_window (snd (run \<lparr>window_size = 2, threshold = 3, data_window = []\<rparr> [4, 5, 6])) = [5, 6] \<and>
   data_window (snd (detect (snd (run \<lparr>window_size = 2, threshold = 3, data_window = []\<rparr> [4, 5, 6])) 7))
     = [6, 7]"
proof -
  have i: "init 2 3 = Inr \<lparr>window_size = 2, threshold = 3, data_window = []\<rparr>"
    by (simp add: init_small)
  show ?thesis
    using i window_holds_last_samples [OF i, of "[4, 5, 6]" 7]
    by (simp add: Let_def)
qed

text \<open>
  Claim C7 (threshold monotonicity). For one detector state and one sample, a false
  verdict at threshold \<open>t\<close> stays false at every threshold \<open>t' \<ge> t\<close>.
\<close>

theorem raising_threshold_keeps_false:
  assumes "t \<le> t'"
    and "fst (detect (d\<lparr>threshold := t\<rparr>) x) = False"
  shows "fst (detect (d\<lparr>threshold := t'\<rparr>) x) = False"
  using assms by (auto simp: detect_def Let_def split: if_splits)

theorem raising_threshold_keeps_false_witness:
  "(1::real) \<le> 2 \<and>
   fst (detect \<lparr>window_size = 2, threshold = 1, data_window = [0]\<rparr> 2) = False \<and>
   fst (detect \<lparr>window_size = 2, threshold = 2, data_window = [0]\<rparr> 2) = False \<and>
   fst (detect \<lparr>window_size = 2, threshold = 1 / 2, data_window = [0]\<rparr> 2) = True"
proof -
  let ?d = "\<lparr>window_size = 2, threshold = 1, data_window = [0]\<rparr>"
  have a: "fst (detect (?d\<lparr>threshold := 1\<rparr>) 2) = False"
    by (simp add: detect_def deque_append_def np_std_pair) (simp add: np_mean_def)
  have b: "fst (detect \<lparr>window_size = 2, threshold = 1 / 2, data_window = [0]\<rparr> 2) = True"
    by (simp add: detect_def deque_append_def np_std_pair) (simp add: np_mean_def)
  show ?thesis
    using a b raising_threshold_keeps_false [of 1 2 ?d 2]
    by simp
qed

text \<open>
  Claim C10 (window of size one). With \<^verbatim>\<open>window_size = 1\<close> every call returns
  false, whatever the threshold and the samples: the window is the sample alone and its
  standard deviation is zero.
\<close>

theorem unit_window_never_flags:
  assumes "init 1 th = Inr d0"
  shows "np_std [x] = 0 \<and> fst (run d0 xs) = replicate (length xs) False"
  using assms unit_window_run [of d0 xs] by (auto simp: np_std_single dest: init_fresh)

theorem unit_window_never_flags_witness:
  "init 1 (1 / 2) = Inr \<lparr>window_size = 1, threshold = 1 / 2, data_window = []\<rparr> \<and>
   fst (run \<lparr>window_size = 1, threshold = 1 / 2, data_window = []\<rparr> [0, 1000, - 7]) =
     [False, False, False]"
proof -
  have i: "init 1 (1 / 2) = Inr \<lparr>window_size = 1, threshold = 1 / 2, data_window = []\<rparr>"
    by (simp add: init_small)
  show ?thesis
    using i unit_window_never_flags [OF i, of 0 "[0, 1000, - 7]"]
    by (simp add: numeral_3_eq_3)
qed

end
